theory Spec2Isabelle
  imports Main "HOL-Library.Word"
begin

unbundle bit_operations_syntax

section \<open>The MCP23009 one-hot output driver (mcp23009.c)\<close>

subsection \<open>C types and kernel constants\<close>

text \<open>
  The driver's integers keep their C widths. \<open>int\<close> and \<open>long\<close> are words read
  through \<open>sint\<close> and compared with \<open><s\<close> and \<open>\<le>s\<close>; \<open>unsigned\<close>, \<open>u32\<close> and
  \<open>u8\<close> are words compared with \<open><\<close> and \<open>\<le>\<close>. \<open>long\<close> and \<open>unsigned long\<close>
  are taken at 64 bits.
\<close>

type_synonym u8 = "8 word"
type_synonym u32 = "32 word"
type_synonym cint = "32 word"
type_synonym clong = "64 word"
type_synonym culong = "64 word"

text \<open>Error numbers of \<open>linux/errno.h\<close>; the driver returns them negated.\<close>

definition EIO :: cint where "EIO = 5"
definition ENOMEM :: cint where "ENOMEM = 12"
definition ENODEV :: cint where "ENODEV = 19"
definition EINVAL :: cint where "EINVAL = 22"

text \<open>
  Selectors and the value kind of \<open>linux/iio/types.h\<close>: the \<open>mask\<close> argument of
  \<open>read_raw\<close> and \<open>write_raw\<close> is one member of \<open>enum iio_chan_info_enum\<close>.
\<close>

definition IIO_CHAN_INFO_RAW :: clong where "IIO_CHAN_INFO_RAW = 0"
definition IIO_CHAN_INFO_SCALE :: clong where "IIO_CHAN_INFO_SCALE = 2"
definition IIO_VAL_INT :: cint where "IIO_VAL_INT = 1"

subsection \<open>The bus transport\<close>

text \<open>
  \<open>i2c_master_send(client, buf, count)\<close> belongs to the kernel. The model keeps the
  frames handed to it, oldest first, and leaves its return value free: \<open>reply\<close> gives
  the value returned to the k-th call (counting from 0) for the frame passed in, so
  every behaviour of the transport (full transfer, short transfer, negative status) is
  some choice of \<open>reply\<close>. The record stands for \<open>data->client\<close>.
\<close>

record i2c_bus =
  sent :: "u8 list list"
  reply :: "nat \<Rightarrow> u8 list \<Rightarrow> cint"

definition i2c_master_send :: "i2c_bus \<Rightarrow> u8 list \<Rightarrow> cint \<times> i2c_bus" where
  "i2c_master_send bus buf =
     (reply bus (length (sent bus)) buf, bus\<lparr>sent := sent bus @ [buf]\<rparr>)"

subsection \<open>Driver state\<close>

text \<open>
  \<open>struct mcp23009_data\<close>. The \<open>client\<close> pointer is the bus above, passed next to
  the record; the field \<open>id\<close> is named \<open>id_chip\<close>.
\<close>

record mcp23009_data =
  id_chip :: cint
  num_out :: u32
  out_value :: u8
  inout_mask :: u8

subsection \<open>Setting the output: \<open>mcp23009_set_value\<close>\<close>

text \<open>
  \<open>outbuf[1] = 1 << (val-1)\<close> shifts the \<open>int\<close> 1 and stores its low byte. The
  shift is reached with \<open>1 \<le> val \<le> 8\<close> only.
\<close>

definition mcp23009_set_value :: "i2c_bus \<Rightarrow> cint \<Rightarrow> cint \<times> i2c_bus" where
  "mcp23009_set_value bus val =
     (if 8 <s val \<or> val <s 0 then (- EINVAL, bus)
      else
        let outbuf = [0x09,
              if val = 0 then 0
              else ucast (push_bit (nat (sint (val - 1))) (1 :: cint))];
            (ret, bus') = i2c_master_send bus outbuf
        in (if ret <s 0 then ret else if ret \<noteq> 2 then - EIO else 0, bus'))"

subsection \<open>The attribute callbacks: \<open>mcp23009_read_raw\<close>, \<open>mcp23009_write_raw\<close>\<close>

text \<open>
  \<open>read_raw\<close> gets the cells \<open>*val\<close> and \<open>*val2\<close> as a pair and returns them with its
  status; it receives the device like \<open>write_raw\<close> does, so the state and the bus
  are returned as well.
\<close>

definition mcp23009_read_raw ::
  "mcp23009_data \<Rightarrow> i2c_bus \<Rightarrow> cint \<times> cint \<Rightarrow> clong
     \<Rightarrow> cint \<times> (cint \<times> cint) \<times> mcp23009_data \<times> i2c_bus" where
  "mcp23009_read_raw data bus cells sel =
     (if sel = IIO_CHAN_INFO_RAW then (IIO_VAL_INT, (ucast (out_value data), snd cells), data, bus)
      else if sel = IIO_CHAN_INFO_SCALE then (IIO_VAL_INT, (1, snd cells), data, bus)
      else (- EINVAL, cells, data, bus))"

text \<open>
  The C parameter \<open>mask\<close> is \<open>sel\<close> here. In \<open>val <= data->num_out\<close> the \<open>int\<close> is
  converted to \<open>unsigned\<close> and the comparison is unsigned; \<open>data->out_value = val\<close>
  keeps the low byte.
\<close>

definition mcp23009_write_raw ::
  "mcp23009_data \<Rightarrow> i2c_bus \<Rightarrow> cint \<Rightarrow> cint \<Rightarrow> clong
     \<Rightarrow> cint \<times> mcp23009_data \<times> i2c_bus" where
  "mcp23009_write_raw data bus val val2 sel =
     (if sel = IIO_CHAN_INFO_RAW then
        (if 0 \<le>s val \<and> (ucast val :: u32) \<le> num_out data then
           let (ret, bus') = mcp23009_set_value bus val
           in (ret, data\<lparr>out_value := ucast val\<rparr>, bus')
         else (- EINVAL, data, bus))
      else (- EINVAL, data, bus))"

text \<open>
  \<open>mcp23009_info\<close> is the table through which the attaching subsystem reaches the
  two callbacks. A request carries the callback's arguments; the answer is the
  status with the two cells (for a write, its own \<open>val\<close> and \<open>val2\<close>).
\<close>

datatype iio_request = Read_raw cint cint clong | Write_raw cint cint clong

fun mcp23009_info ::
  "iio_request \<Rightarrow> mcp23009_data \<times> i2c_bus \<Rightarrow> (cint \<times> cint \<times> cint) \<times> mcp23009_data \<times> i2c_bus" where
  "mcp23009_info (Read_raw val val2 sel) (data, bus) =
     (case mcp23009_read_raw data bus (val, val2) sel of
        (ret, cells, data', bus') \<Rightarrow> ((ret, cells), data', bus'))"
| "mcp23009_info (Write_raw val val2 sel) (data, bus) =
     (case mcp23009_write_raw data bus val val2 sel of
        (ret, data', bus') \<Rightarrow> ((ret, val, val2), data', bus'))"

text \<open>A sequence of requests, served in order.\<close>

fun serve :: "iio_request list \<Rightarrow> mcp23009_data \<times> i2c_bus \<Rightarrow> mcp23009_data \<times> i2c_bus" where
  "serve [] s = s"
| "serve (r # rs) s = serve rs (snd (mcp23009_info r s))"

subsection \<open>Initialization: \<open>mcp23009_probe_dt\<close>, \<open>mcp23009_probe\<close>\<close>

text \<open>
  What the kernel hands to \<open>mcp23009_probe\<close>:
  \<^item> \<open>alloc_ok\<close>: \<open>devm_iio_device_alloc\<close> returned a device (its private data
    zero-filled, as \<open>kzalloc\<close> leaves it);
  \<^item> \<open>match_id\<close>: the chip id found by the device match;
  \<^item> \<open>platdata\<close>: the \<open>num_out\<close> of the platform data, \<open>None\<close> when
    \<open>dev_get_platdata\<close> is \<open>NULL\<close>;
  \<^item> \<open>config_of\<close>: whether \<open>CONFIG_OF\<close> is set;
  \<^item> \<open>of_node\<close>: \<open>None\<close> without a device-tree node, \<open>Some None\<close> for a node whose
    \<open>num-out\<close> property cannot be read, \<open>Some (Some n)\<close> for one that gives \<open>n\<close>;
  \<^item> \<open>register_ret\<close>: the status of \<open>iio_device_register\<close>.
  \<open>struct mcp23009_platform_data\<close> is declared in \<open>mcp23009.h\<close>; its \<open>num_out\<close> is
  the \<open>u32\<close> that \<open>of_property_read_u32\<close> fills.
\<close>

record probe_env =
  alloc_ok :: bool
  match_id :: cint
  platdata :: "u32 option"
  config_of :: bool
  of_node :: "u32 option option"
  register_ret :: cint

definition mcp23009_probe_dt :: "bool \<Rightarrow> u32 option option \<Rightarrow> cint + u32" where
  "mcp23009_probe_dt cfg np =
     (if cfg then
        (case np of
           None \<Rightarrow> Inl (- ENODEV)
         | Some prop \<Rightarrow> (case prop of Some n \<Rightarrow> Inr n | None \<Rightarrow> Inr 8))
      else Inl (- ENODEV))"

text \<open>
  The platform data that \<open>mcp23009_probe\<close> settles on: that of \<open>dev_get_platdata\<close>,
  or else that of \<open>mcp23009_probe_dt\<close> (whose error ends the probe).
\<close>

definition probe_pdata :: "probe_env \<Rightarrow> cint + u32" where
  "probe_pdata env =
     (case platdata env of
        Some n \<Rightarrow> Inr n
      | None \<Rightarrow> mcp23009_probe_dt (config_of env) (of_node env))"

text \<open>\<open>~((1UL << data->num_out) - 1) & 0xFF\<close>, stored in a \<open>u8\<close>.\<close>

definition mcp23009_inout_mask :: "u32 \<Rightarrow> u8" where
  "mcp23009_inout_mask n = ucast (NOT (push_bit (unat n) (1 :: culong) - 1) AND 0xFF)"

text \<open>
  A failed probe returns its status as \<open>Inl\<close>: the device-managed allocation is
  released and no state is left. A successful one returns the state as \<open>Inr\<close>.
  The probe never assigns \<open>out_value\<close>: the 0 in the record is the content of the
  zero-filled allocation.
\<close>

definition mcp23009_probe :: "probe_env \<Rightarrow> i2c_bus \<Rightarrow> (cint + mcp23009_data) \<times> i2c_bus" where
  "mcp23009_probe env bus =
     (if \<not> alloc_ok env then (Inl (- ENOMEM), bus)
      else
        case probe_pdata env of
          Inl err \<Rightarrow> (Inl err, bus)
        | Inr n \<Rightarrow>
            if 8 < n then (Inl (- EINVAL), bus)
            else
              let data = \<lparr>id_chip = match_id env, num_out = n, out_value = 0,
                          inout_mask = mcp23009_inout_mask n\<rparr>;
                  (ret, bus1) = i2c_master_send bus [0x00, inout_mask data]
              in if ret <s 0 \<or> ret \<noteq> 2 then (Inl (- EIO), bus1)
                 else
                   let (ret, bus2) = i2c_master_send bus1 [0x06, 0xFF]
                   in if ret <s 0 \<or> ret \<noteq> 2 then (Inl (- EIO), bus2)
                      else if register_ret env \<noteq> 0 then (Inl (register_ret env), bus2)
                      else (Inr data, bus2))"

subsection \<open>The formulas as the specification writes them\<close>


text \<open>
  The translation rule: bitmask \<open>0x00\<close> for channel 0, otherwise
  \<open>1 << (channel - 1)\<close>, on unbounded integers.
\<close>

definition spec_bitmask :: "int \<Rightarrow> int" where
  "spec_bitmask channel = (if channel = 0 then 0 else push_bit (nat (channel - 1)) 1)"

subsection \<open>Example inputs\<close>

text \<open>A bus that has sent nothing yet and answers every send with \<open>r\<close>.\<close>

definition bus_answering :: "cint \<Rightarrow> i2c_bus" where
  "bus_answering r = \<lparr>sent = [], reply = (\<lambda>k buf. r)\<rparr>"

text \<open>A bus that answers the first \<open>m\<close> sends with 2 and every later one with \<open>r\<close>.\<close>

definition bus_failing_after :: "nat \<Rightarrow> cint \<Rightarrow> i2c_bus" where
  "bus_failing_after m r = \<lparr>sent = [], reply = (\<lambda>k buf. if k < m then 2 else r)\<rparr>"

text \<open>The state of a device with \<open>n\<close> outputs and channel \<open>v\<close> selected.\<close>

definition data_with :: "u32 \<Rightarrow> u8 \<Rightarrow> mcp23009_data" where
  "data_with n v = \<lparr>id_chip = 0, num_out = n, out_value = v, inout_mask = mcp23009_inout_mask n\<rparr>"

text \<open>A probe whose allocation and registration succeed, with platform data \<open>n\<close>.\<close>

definition env_platdata :: "u32 \<Rightarrow> probe_env" where
  "env_platdata n = \<lparr>alloc_ok = True, match_id = 0, platdata = Some n, config_of = True,
     of_node = None, register_ret = 0\<rparr>"

text \<open>The same without platform data, from a device-tree node.\<close>

definition env_of_node :: "u32 option \<Rightarrow> probe_env" where
  "env_of_node prop = \<lparr>alloc_ok = True, match_id = 0, platdata = None, config_of = True,
     of_node = Some prop, register_ret = 0\<rparr>"

section \<open>Properties\<close>

subsection \<open>Word facts\<close>

lemma sint_32: "sint (v :: 32 word) = (if bit v 31 then uint v - 2 ^ 32 else uint v)"
  using uint_lt2p [of v]
  by (simp add: sint_uint signed_take_bit_eq_take_bit_minus bit_uint_iff take_bit_eq_mod)

lemma sint_nonneg_uint: "0 \<le> sint (v :: 32 word) \<Longrightarrow> sint v = uint v"
  using uint_lt2p [of v] by (simp add: sint_32 split: if_splits)

lemma u32_le_8_cases: "(n :: 32 word) \<le> 8 \<Longrightarrow> n \<in> {0, 1, 2, 3, 4, 5, 6, 7, 8}"
proof -
  assume "n \<le> 8"
  then have "unat n \<le> 8" by (simp add: word_le_nat_alt)
  then have "unat n \<in> {0, 1, 2, 3, 4, 5, 6, 7, 8}" by auto
  then show ?thesis by (auto simp add: word_unat_eq_iff)
qed

lemma uint_ucast_le: "uint (ucast (v :: 32 word) :: 8 word) \<le> uint v"
  by (simp add: unsigned_ucast_eq take_bit_int_less_eq_self_iff)

lemma one_hot_bits: "k < 8 \<Longrightarrow> {i. bit (push_bit k (1 :: 8 word)) i} = {k}"
  by (auto simp add: bit_simps)

text \<open>The guard of \<open>write_raw\<close> read on the integers: \<open>0 \<le> val \<le> num_out\<close>.\<close>

lemma in_range_iff:
  "(0 \<le>s val \<and> val \<le> n) \<longleftrightarrow> (0 \<le> sint val \<and> sint val \<le> uint (n :: 32 word))"
  by (auto simp add: word_sle_eq word_le_def sint_nonneg_uint)

lemma channel_cases:
  assumes "0 \<le> sint (val :: 32 word)" and "sint val \<le> uint (n :: 32 word)" and "n \<le> 8"
  shows "val \<in> {0, 1, 2, 3, 4, 5, 6, 7, 8}"
proof -
  from assms(1,2) have "val \<le> n" using in_range_iff [of val n] by simp
  with assms(3) have "val \<le> 8" by simp
  then show ?thesis by (rule u32_le_8_cases)
qed

subsection \<open>What one call does\<close>

text \<open>
  For a channel from 0 to 8, \<open>mcp23009_set_value\<close> sends one frame, register 0x09
  with the channel's bit, and turns the transport's answer into its status.
\<close>

lemma set_value_sends:
  assumes "val \<in> {0, 1, 2, 3, 4, 5, 6, 7, 8}"
  shows "mcp23009_set_value bus val =
    (let f = [0x09, if val = 0 then 0 else push_bit (nat (sint val) - 1) 1];
         r = reply bus (length (sent bus)) f
     in (if r <s 0 then r else if r \<noteq> 2 then - EIO else 0, bus\<lparr>sent := sent bus @ [f]\<rparr>))"
  using assms
  by (auto simp add: mcp23009_set_value_def i2c_master_send_def Let_def word_sless_alt)

lemma write_raw_in_range:
  assumes "num_out d \<le> 8" and "0 \<le> sint val" and "sint val \<le> uint (num_out d)"
  shows "mcp23009_write_raw d bus val val2 IIO_CHAN_INFO_RAW =
    (let f = [0x09, if val = 0 then 0 else push_bit (nat (sint val) - 1) 1];
         r = reply bus (length (sent bus)) f
     in (if r <s 0 then r else if r \<noteq> 2 then - EIO else 0,
         d\<lparr>out_value := ucast val\<rparr>, bus\<lparr>sent := sent bus @ [f]\<rparr>))"
proof -
  have c: "val \<in> {0, 1, 2, 3, 4, 5, 6, 7, 8}" by (rule channel_cases [OF assms(2,3,1)])
  from assms(2,3) have g: "0 \<le>s val \<and> val \<le> num_out d" by (simp add: in_range_iff)
  show ?thesis
    by (simp add: mcp23009_write_raw_def g set_value_sends [OF c] Let_def)
qed


lemma write_raw_num_out:
  "mcp23009_write_raw d bus val val2 sel = (ret, d', bus') \<Longrightarrow> num_out d' = num_out d"
  by (auto simp add: mcp23009_write_raw_def split: if_splits prod.splits)

lemma write_raw_out_value_le:
  assumes "uint (out_value d) \<le> uint (num_out d)"
    and "mcp23009_write_raw d bus val val2 sel = (ret, d', bus')"
  shows "uint (out_value d') \<le> uint (num_out d')"
proof (cases "sel = IIO_CHAN_INFO_RAW \<and> 0 \<le>s val \<and> val \<le> num_out d")
  case True
  then have "uint val \<le> uint (num_out d)" by (simp add: word_le_def)
  moreover have "uint (ucast val :: u8) \<le> uint val" by (rule uint_ucast_le)
  moreover from True assms(2) have "d' = d\<lparr>out_value := ucast val\<rparr>"
    by (auto simp add: mcp23009_write_raw_def split: prod.splits)
  ultimately show ?thesis by simp
next
  case False
  with assms(2) have "d' = d" by (auto simp add: mcp23009_write_raw_def split: if_splits)
  with assms(1) show ?thesis by simp
qed

lemma info_invariant:
  assumes "uint (out_value d) \<le> uint (num_out d)"
    and "mcp23009_info r (d, bus) = (ans, d', bus')"
  shows "uint (out_value d') \<le> uint (num_out d') \<and> num_out d' = num_out d"
proof (cases r)
  case (Read_raw val val2 sel)
  with assms(2) have "d' = d"
    by (auto simp add: mcp23009_read_raw_def split: if_splits)
  with assms(1) show ?thesis by simp
next
  case (Write_raw val val2 sel)
  with assms(2) obtain ret where w: "mcp23009_write_raw d bus val val2 sel = (ret, d', bus')"
    by (auto split: prod.splits)
  from write_raw_out_value_le [OF assms(1) w] write_raw_num_out [OF w] show ?thesis by simp
qed

lemma serve_invariant:
  "uint (out_value d) \<le> uint (num_out d) \<Longrightarrow>
   uint (out_value (fst (serve rs (d, bus)))) \<le> uint (num_out (fst (serve rs (d, bus))))
   \<and> num_out (fst (serve rs (d, bus))) = num_out d"
proof (induction rs arbitrary: d bus)
  case Nil
  then show ?case by simp
next
  case (Cons r rs)
  obtain ans d' bus' where s: "mcp23009_info r (d, bus) = (ans, d', bus')"
    by (cases "mcp23009_info r (d, bus)") auto
  from info_invariant [OF Cons.prems s]
  have i: "uint (out_value d') \<le> uint (num_out d')" and n: "num_out d' = num_out d" by blast+
  have e: "serve (r # rs) (d, bus) = serve rs (d', bus')" using s by simp
  from Cons.IH [OF i, of bus'] n show ?case unfolding e by auto
qed

subsection \<open>What the probe does\<close>

lemma probe_success:
  assumes "mcp23009_probe env bus = (Inr d, bus')"
  shows "num_out d \<le> 8 \<and> out_value d = 0 \<and> inout_mask d = mcp23009_inout_mask (num_out d)
         \<and> id_chip d = match_id env \<and> probe_pdata env = Inr (num_out d) \<and> alloc_ok env"
  using assms
  by (auto simp add: mcp23009_probe_def i2c_master_send_def Let_def
      split: if_splits sum.splits)

lemma probe_reaches_bus:
  assumes "alloc_ok env" and "probe_pdata env = Inr n" and "n \<le> 8"
  shows "mcp23009_probe env bus =
    (let f1 = [0x00, mcp23009_inout_mask n]; f2 = [0x06, 0xFF];
         r1 = reply bus (length (sent bus)) f1;
         r2 = reply bus (Suc (length (sent bus))) f2
     in if r1 <s 0 \<or> r1 \<noteq> 2 then (Inl (- EIO), bus\<lparr>sent := sent bus @ [f1]\<rparr>)
        else if r2 <s 0 \<or> r2 \<noteq> 2 then (Inl (- EIO), bus\<lparr>sent := sent bus @ [f1, f2]\<rparr>)
        else if register_ret env \<noteq> 0 then (Inl (register_ret env), bus\<lparr>sent := sent bus @ [f1, f2]\<rparr>)
        else (Inr \<lparr>id_chip = match_id env, num_out = n, out_value = 0,
                   inout_mask = mcp23009_inout_mask n\<rparr>, bus\<lparr>sent := sent bus @ [f1, f2]\<rparr>))"
proof -
  from assms(3) have "\<not> 8 < n" by simp
  with assms(1,2) show ?thesis
    by (auto simp add: mcp23009_probe_def i2c_master_send_def Let_def word_sless_alt)
qed



subsection \<open>The properties of the specification\<close>

text \<open>
  C1 (the stored value after a failed write). With 8 outputs and channel 0 stored,
  \<open>write_raw\<close> of channel 3 on a bus that answers \<open>-5\<close> returns \<open>-5\<close>, and on a bus
  that answers 1 (a short transfer) returns \<open>-EIO\<close>; in both cases the frame was
  sent and the stored \<open>out_value\<close> is 3 afterwards, not the 0 it was before the call.
\<close>

theorem write_raw_failed_send_stores_channel:
  "mcp23009_write_raw (data_with 8 0) (bus_answering (- 5)) 3 0 IIO_CHAN_INFO_RAW
     = (- 5, data_with 8 3, (bus_answering (- 5))\<lparr>sent := [[0x09, 0x04]]\<rparr>)
   \<and> mcp23009_write_raw (data_with 8 0) (bus_answering 1) 3 0 IIO_CHAN_INFO_RAW
     = (- EIO, data_with 8 3, (bus_answering 1)\<lparr>sent := [[0x09, 0x04]]\<rparr>)
   \<and> out_value (data_with 8 3) \<noteq> out_value (data_with 8 0)"
  by (simp add: mcp23009_write_raw_def mcp23009_set_value_def i2c_master_send_def
      IIO_CHAN_INFO_RAW_def EIO_def EINVAL_def word_sle_eq word_sless_alt
      data_with_def bus_answering_def)

text \<open>
  C2 (the frame of SetValue). With at most 8 outputs configured and a channel from 0
  to \<open>num_out\<close>, \<open>write_raw\<close> with the raw selector appends exactly one frame to the
  bus, \<open>[0x09, b]\<close>, where the byte \<open>b\<close> has the value the translation rule gives
  (0 for channel 0, \<open>1 << (channel - 1)\<close> otherwise) and at most one bit set.
\<close>

theorem set_value_frame_one_hot:
  assumes "num_out d \<le> 8" and "0 \<le> sint val" and "sint val \<le> uint (num_out d)"
  shows "\<exists>b. snd (snd (mcp23009_write_raw d bus val val2 IIO_CHAN_INFO_RAW))
                = bus\<lparr>sent := sent bus @ [[0x09, b]]\<rparr>
             \<and> uint b = spec_bitmask (sint val)
             \<and> card {i. bit b i} \<le> 1"
proof -
  have c: "val \<in> {0, 1, 2, 3, 4, 5, 6, 7, 8}" by (rule channel_cases [OF assms(2,3,1)])
  let ?b = "if val = 0 then 0 else push_bit (nat (sint val) - 1) (1 :: u8)"
  have "snd (snd (mcp23009_write_raw d bus val val2 IIO_CHAN_INFO_RAW))
          = bus\<lparr>sent := sent bus @ [[0x09, ?b]]\<rparr>"
    by (simp add: write_raw_in_range [OF assms] Let_def)
  moreover from c have "uint ?b = spec_bitmask (sint val)"
    by (auto simp add: spec_bitmask_def)
  moreover have "card {i. bit ?b i} \<le> 1"
  proof (cases "val = 0")
    case True
    then show ?thesis by simp
  next
    case False
    with c have "nat (sint val) - 1 < 8" by auto
    from one_hot_bits [OF this] False show ?thesis by simp
  qed
  ultimately show ?thesis by blast
qed

theorem set_value_frame_one_hot_witness:
  "\<exists>b. snd (snd (mcp23009_write_raw (data_with 8 0) (bus_answering 2) 3 0 IIO_CHAN_INFO_RAW))
          = (bus_answering 2)\<lparr>sent := [[0x09, b]]\<rparr>
       \<and> uint b = 4 \<and> card {i. bit b i} \<le> 1"
  using set_value_frame_one_hot [of "data_with 8 0" 3 "bus_answering 2" 0]
  by (simp add: data_with_def bus_answering_def spec_bitmask_def)



text \<open>
  C4 (a channel out of range). For a channel below 0 or above \<open>num_out\<close>,
  \<open>write_raw\<close> with the raw selector returns \<open>-EINVAL\<close> and gives back the state and
  the bus as they were: nothing is sent and \<open>out_value\<close> keeps its value.
\<close>

theorem write_raw_out_of_range:
  assumes "sint val < 0 \<or> uint (num_out d) < sint val"
  shows "mcp23009_write_raw d bus val val2 IIO_CHAN_INFO_RAW = (- EINVAL, d, bus)"
  using assms in_range_iff [of val "num_out d"]
  by (auto simp add: mcp23009_write_raw_def)

theorem write_raw_out_of_range_witness:
  "mcp23009_write_raw (data_with 3 2) (bus_answering 2) 4 0 IIO_CHAN_INFO_RAW
     = (- EINVAL, data_with 3 2, bus_answering 2)
   \<and> mcp23009_write_raw (data_with 3 2) (bus_answering 2) (- 1) 0 IIO_CHAN_INFO_RAW
     = (- EINVAL, data_with 3 2, bus_answering 2)"
  using write_raw_out_of_range [of 4 "data_with 3 2" "bus_answering 2" 0]
    write_raw_out_of_range [of "- 1" "data_with 3 2" "bus_answering 2" 0]
  by (simp add: data_with_def)

text \<open>
  C5 (too many outputs). When the probe has its device and platform data with
  \<open>num_out\<close> above 8, it returns \<open>-EINVAL\<close> and the bus is as it was: nothing is sent.
\<close>

theorem probe_rejects_num_out_above_8:
  assumes "alloc_ok env" and "probe_pdata env = Inr n" and "8 < n"
  shows "mcp23009_probe env bus = (Inl (- EINVAL), bus)"
  using assms by (simp add: mcp23009_probe_def)

theorem probe_rejects_num_out_above_8_witness:
  "mcp23009_probe (env_platdata 9) (bus_answering 2) = (Inl (- EINVAL), bus_answering 2)
   \<and> mcp23009_probe (env_of_node (Some 4294967295)) (bus_answering 2)
       = (Inl (- EINVAL), bus_answering 2)"
  using probe_rejects_num_out_above_8 [of "env_platdata 9" 9 "bus_answering 2"]
    probe_rejects_num_out_above_8 [of "env_of_node (Some 4294967295)" 4294967295 "bus_answering 2"]
  by (simp add: env_platdata_def env_of_node_def probe_pdata_def mcp23009_probe_dt_def)

text \<open>
  C6 (the two configuration writes). Let the probe have its device and platform data
  with \<open>num_out\<close> from 0 to 8, and let \<open>r1\<close> and \<open>r2\<close> be what the transport answers
  to the frames \<open>[0x00, inout_mask]\<close> and \<open>[0x06, 0xFF]\<close>.
  \<^item> The probe succeeds exactly when both answers are 2 and the registration
    succeeds, and then the bus has received exactly those two frames, in that order.
  \<^item> If \<open>r1\<close> is negative or not 2, the probe returns \<open>-EIO\<close> and only the first
    frame was sent.
  \<^item> If \<open>r1\<close> is 2 and \<open>r2\<close> is negative or not 2, the probe returns \<open>-EIO\<close> after
    the two frames.
\<close>

theorem probe_configuration_writes:
  assumes "alloc_ok env" and "probe_pdata env = Inr n" and "n \<le> 8"
    and "f1 = [0x00, mcp23009_inout_mask n]" and "f2 = [0x06, 0xFF]"
    and "r1 = reply bus (length (sent bus)) f1"
    and "r2 = reply bus (Suc (length (sent bus))) f2"
  shows "((\<exists>d. fst (mcp23009_probe env bus) = Inr d) \<longleftrightarrow> r1 = 2 \<and> r2 = 2 \<and> register_ret env = 0)
     \<and> ((\<exists>d. fst (mcp23009_probe env bus) = Inr d) \<longrightarrow>
           snd (mcp23009_probe env bus) = bus\<lparr>sent := sent bus @ [f1, f2]\<rparr>)
     \<and> (r1 <s 0 \<or> r1 \<noteq> 2 \<longrightarrow>
           mcp23009_probe env bus = (Inl (- EIO), bus\<lparr>sent := sent bus @ [f1]\<rparr>))
     \<and> (r1 = 2 \<and> (r2 <s 0 \<or> r2 \<noteq> 2) \<longrightarrow>
           mcp23009_probe env bus = (Inl (- EIO), bus\<lparr>sent := sent bus @ [f1, f2]\<rparr>))"
  using assms(4-7)
  by (auto simp add: probe_reaches_bus [OF assms(1-3)] Let_def word_sless_alt)

theorem probe_configuration_writes_witness:
  "mcp23009_probe (env_platdata 3) (bus_answering 2)
     = (Inr (data_with 3 0), (bus_answering 2)\<lparr>sent := [[0x00, 0xF8], [0x06, 0xFF]]\<rparr>)
   \<and> mcp23009_probe (env_platdata 3) (bus_failing_after 0 (- 5))
     = (Inl (- EIO), (bus_failing_after 0 (- 5))\<lparr>sent := [[0x00, 0xF8]]\<rparr>)
   \<and> mcp23009_probe (env_platdata 3) (bus_failing_after 1 1)
     = (Inl (- EIO), (bus_failing_after 1 1)\<lparr>sent := [[0x00, 0xF8], [0x06, 0xFF]]\<rparr>)"
proof -
  have e: "alloc_ok (env_platdata 3)" "probe_pdata (env_platdata 3) = Inr 3" "(3 :: u32) \<le> 8"
    "register_ret (env_platdata 3) = 0"
    by (simp_all add: env_platdata_def probe_pdata_def)
  have m: "mcp23009_inout_mask 3 = 0xF8" by (simp add: mcp23009_inout_mask_def)
  from probe_configuration_writes [OF e(1-3) refl refl refl refl, of "bus_answering 2"]
  have "\<exists>d. mcp23009_probe (env_platdata 3) (bus_answering 2)
     = (Inr d, (bus_answering 2)\<lparr>sent := [[0x00, 0xF8], [0x06, 0xFF]]\<rparr>)"
    by (cases "mcp23009_probe (env_platdata 3) (bus_answering 2)")
      (auto simp add: e(4) m bus_answering_def)
  then obtain d where p: "mcp23009_probe (env_platdata 3) (bus_answering 2)
     = (Inr d, (bus_answering 2)\<lparr>sent := [[0x00, 0xF8], [0x06, 0xFF]]\<rparr>)" by blast
  from probe_success [OF p] e(2) have "d = data_with 3 0"
    by (cases d) (simp add: data_with_def env_platdata_def)
  with p have a: "mcp23009_probe (env_platdata 3) (bus_answering 2)
     = (Inr (data_with 3 0), (bus_answering 2)\<lparr>sent := [[0x00, 0xF8], [0x06, 0xFF]]\<rparr>)"
    by simp
  from probe_configuration_writes [OF e(1-3) refl refl refl refl, of "bus_failing_after 0 (- 5)"]
  have b: "mcp23009_probe (env_platdata 3) (bus_failing_after 0 (- 5))
     = (Inl (- EIO), (bus_failing_after 0 (- 5))\<lparr>sent := [[0x00, 0xF8]]\<rparr>)"
    by (simp add: m bus_failing_after_def)
  from probe_configuration_writes [OF e(1-3) refl refl refl refl, of "bus_failing_after 1 1"]
  have c: "mcp23009_probe (env_platdata 3) (bus_failing_after 1 1)
     = (Inl (- EIO), (bus_failing_after 1 1)\<lparr>sent := [[0x00, 0xF8], [0x06, 0xFF]]\<rparr>)"
    by (simp add: m bus_failing_after_def)
  from a b c show ?thesis by simp
qed


text \<open>
  C7 (the stored channel stays in range). A successful probe leaves \<open>out_value\<close> at
  0. From there, after any sequence of requests to \<open>read_raw\<close> and \<open>write_raw\<close>
  (any values, any selectors, any answers of the transport), \<open>num_out\<close> is what the
  probe stored and \<open>0 \<le> out_value \<le> num_out\<close>.
\<close>

theorem out_value_within_num_out:
  assumes "mcp23009_probe env bus = (Inr d, bus')"
  shows "out_value d = 0
     \<and> num_out (fst (serve rs (d, bus'))) = num_out d
     \<and> 0 \<le> uint (out_value (fst (serve rs (d, bus'))))
     \<and> uint (out_value (fst (serve rs (d, bus')))) \<le> uint (num_out (fst (serve rs (d, bus'))))"
proof -
  from probe_success [OF assms] have z: "out_value d = 0" by simp
  then have "uint (out_value d) \<le> uint (num_out d)" by simp
  from serve_invariant [OF this, of rs bus'] z show ?thesis by auto
qed

theorem out_value_within_num_out_witness:
  "mcp23009_probe (env_platdata 3) (bus_failing_after 3 (- 5))
     = (Inr (data_with 3 0), (bus_failing_after 3 (- 5))\<lparr>sent := [[0x00, 0xF8], [0x06, 0xFF]]\<rparr>)
   \<and> out_value (data_with 3 0) = 0
   \<and> uint (out_value (fst (serve
         [Write_raw 2 0 IIO_CHAN_INFO_RAW, Read_raw 0 0 IIO_CHAN_INFO_RAW,
          Write_raw 3 0 IIO_CHAN_INFO_RAW, Write_raw 4 0 IIO_CHAN_INFO_RAW,
          Read_raw 0 0 IIO_CHAN_INFO_SCALE]
         (data_with 3 0, (bus_failing_after 3 (- 5))\<lparr>sent := [[0x00, 0xF8], [0x06, 0xFF]]\<rparr>))))
       \<le> 3"
proof -
  have p: "mcp23009_probe (env_platdata 3) (bus_failing_after 3 (- 5))
     = (Inr (data_with 3 0), (bus_failing_after 3 (- 5))\<lparr>sent := [[0x00, 0xF8], [0x06, 0xFF]]\<rparr>)"
    by (simp add: mcp23009_probe_def probe_pdata_def env_platdata_def bus_failing_after_def
        data_with_def i2c_master_send_def mcp23009_inout_mask_def word_sless_alt)
  let ?rs = "[Write_raw 2 0 IIO_CHAN_INFO_RAW, Read_raw 0 0 IIO_CHAN_INFO_RAW,
          Write_raw 3 0 IIO_CHAN_INFO_RAW, Write_raw 4 0 IIO_CHAN_INFO_RAW,
          Read_raw 0 0 IIO_CHAN_INFO_SCALE]"
  let ?s = "serve ?rs
         (data_with 3 0, (bus_failing_after 3 (- 5))\<lparr>sent := [[0x00, 0xF8], [0x06, 0xFF]]\<rparr>)"
  from out_value_within_num_out [OF p, of ?rs]
  have z: "out_value (data_with 3 0) = 0"
    and n: "num_out (fst ?s) = num_out (data_with 3 0)"
    and l: "uint (out_value (fst ?s)) \<le> uint (num_out (fst ?s))"
    by blast+
  have "uint (num_out (data_with 3 0)) = 3" by (simp add: data_with_def)
  with n l have "uint (out_value (fst ?s)) \<le> 3" by (simp only:)
  with p z show ?thesis by blast
qed

text \<open>
  C8 (the two queries). \<open>read_raw\<close> with the raw selector returns \<open>IIO_VAL_INT\<close> with
  the stored \<open>out_value\<close> in \<open>*val\<close> (the same number, read as an \<open>int\<close>), and with
  the scale selector returns \<open>IIO_VAL_INT\<close> with 1 in \<open>*val\<close>. Both give back the
  state and the bus as they were: no frame is sent and no field changes.
\<close>

theorem read_raw_value_and_scale:
  "mcp23009_read_raw d bus (v, v2) IIO_CHAN_INFO_RAW
      = (IIO_VAL_INT, (ucast (out_value d), v2), d, bus)
   \<and> sint (ucast (out_value d) :: cint) = uint (out_value d)
   \<and> mcp23009_read_raw d bus (v, v2) IIO_CHAN_INFO_SCALE = (IIO_VAL_INT, (1, v2), d, bus)"
proof -
  have "\<not> bit (out_value d) 31" by (simp add: bit_word_iff_drop_bit_and [of "out_value d"] bit_imp_le_length)
  then have "sint (ucast (out_value d) :: cint) = uint (out_value d)"
    by (simp add: sint_32 bit_ucast_iff uint_up_ucast is_up)
  then show ?thesis
    by (simp add: mcp23009_read_raw_def IIO_CHAN_INFO_RAW_def IIO_CHAN_INFO_SCALE_def)
qed

text \<open>
  C9 (setting the same channel twice). Take at most 8 outputs configured, a channel
  from 0 to \<open>num_out\<close>, its frame \<open>f = [0x09, bitmask]\<close>, and a transport that answers
  2 to \<open>f\<close> at the next two sends. Then two calls of \<open>write_raw\<close> with the raw
  selector, one after the other, both return 0; the first appends \<open>f\<close> to what the
  bus has received and the second appends \<open>f\<close> again, so the two writes are the same
  2-byte frame; the state after the second call is the state after the first; and
  \<open>read_raw\<close> reports the same value after the second call as after the first: the
  channel.
\<close>

theorem set_value_twice:
  assumes "num_out d \<le> 8" and "0 \<le> sint val" and "sint val \<le> uint (num_out d)"
    and "f = [0x09, if val = 0 then 0 else push_bit (nat (sint val) - 1) 1]"
    and "reply bus (length (sent bus)) f = 2"
    and "reply bus (Suc (length (sent bus))) f = 2"
    and "w1 = mcp23009_write_raw d bus val val2 IIO_CHAN_INFO_RAW"
    and "w2 = mcp23009_write_raw (fst (snd w1)) (snd (snd w1)) val val2 IIO_CHAN_INFO_RAW"
  shows "fst w1 = 0 \<and> fst w2 = 0
     \<and> length f = 2
     \<and> sent (snd (snd w1)) = sent bus @ [f]
     \<and> sent (snd (snd w2)) = sent bus @ [f, f]
     \<and> fst (snd w2) = fst (snd w1)
     \<and> fst (snd (mcp23009_read_raw (fst (snd w2)) (snd (snd w2)) cells IIO_CHAN_INFO_RAW))
         = fst (snd (mcp23009_read_raw (fst (snd w1)) (snd (snd w1)) cells IIO_CHAN_INFO_RAW))
     \<and> sint (fst (fst (snd (mcp23009_read_raw (fst (snd w2)) (snd (snd w2)) cells
            IIO_CHAN_INFO_RAW)))) = sint val"
proof -
  have c: "val \<in> {0, 1, 2, 3, 4, 5, 6, 7, 8}" by (rule channel_cases [OF assms(2,3,1)])
  let ?d1 = "d\<lparr>out_value := ucast val\<rparr>"
  let ?b1 = "bus\<lparr>sent := sent bus @ [f]\<rparr>"
  let ?b2 = "bus\<lparr>sent := sent bus @ [f, f]\<rparr>"
  have n2: "\<not> (2 :: cint) <s 0" by (simp add: word_sless_alt)
  from assms(4,5,7) n2 have w1: "w1 = (0, ?d1, ?b1)"
    by (simp add: write_raw_in_range [OF assms(1-3)] Let_def)
  have h1: "num_out ?d1 \<le> 8" "sint val \<le> uint (num_out ?d1)" using assms(1,3) by simp_all
  have l: "length (sent ?b1) = Suc (length (sent bus))" by simp
  from assms(4,6,8) n2 have w2: "w2 = (0, ?d1, ?b2)"
    by (simp add: w1 write_raw_in_range [OF h1(1) assms(2) h1(2)] Let_def)
  from assms(4) have lf: "length f = 2" by simp
  from c have "sint (ucast (ucast val :: u8) :: cint) = sint val" by auto
  then have v: "sint (fst (fst (snd (mcp23009_read_raw ?d1 ?b2 cells IIO_CHAN_INFO_RAW)))) = sint val"
    by (simp add: mcp23009_read_raw_def)
  have r: "fst (snd (mcp23009_read_raw ?d1 ?b2 cells IIO_CHAN_INFO_RAW))
         = fst (snd (mcp23009_read_raw ?d1 ?b1 cells IIO_CHAN_INFO_RAW))"
    by (simp add: mcp23009_read_raw_def)
  from lf v r show ?thesis unfolding w1 w2 by simp
qed

theorem set_value_twice_witness:
  "fst (mcp23009_write_raw (data_with 8 0) (bus_failing_after 2 (- 5)) 3 0 IIO_CHAN_INFO_RAW) = 0
   \<and> sent (snd (snd (mcp23009_write_raw (data_with 8 0) (bus_failing_after 2 (- 5)) 3 0
        IIO_CHAN_INFO_RAW))) = [[0x09, 0x04]]
   \<and> fst (mcp23009_write_raw
        (fst (snd (mcp23009_write_raw (data_with 8 0) (bus_failing_after 2 (- 5)) 3 0
           IIO_CHAN_INFO_RAW)))
        (snd (snd (mcp23009_write_raw (data_with 8 0) (bus_failing_after 2 (- 5)) 3 0
           IIO_CHAN_INFO_RAW)))
        3 0 IIO_CHAN_INFO_RAW) = 0
   \<and> sent (snd (snd (mcp23009_write_raw
        (fst (snd (mcp23009_write_raw (data_with 8 0) (bus_failing_after 2 (- 5)) 3 0
           IIO_CHAN_INFO_RAW)))
        (snd (snd (mcp23009_write_raw (data_with 8 0) (bus_failing_after 2 (- 5)) 3 0
           IIO_CHAN_INFO_RAW)))
        3 0 IIO_CHAN_INFO_RAW))) = [[0x09, 0x04], [0x09, 0x04]]"
proof -
  have h: "num_out (data_with 8 0) \<le> 8" "0 \<le> sint (3 :: cint)"
    "sint (3 :: cint) \<le> uint (num_out (data_with 8 0))"
    by (simp_all add: data_with_def)
  have f: "[0x09, 0x04 :: u8] = [0x09, if (3 :: cint) = 0 then 0 else push_bit (nat (sint (3 :: cint)) - 1) 1]"
    by simp
  have r: "reply (bus_failing_after 2 (- 5)) (length (sent (bus_failing_after 2 (- 5))))
        [0x09, 0x04] = 2"
    "reply (bus_failing_after 2 (- 5)) (Suc (length (sent (bus_failing_after 2 (- 5)))))
        [0x09, 0x04] = 2"
    by (simp_all add: bus_failing_after_def)
  have s: "sent (bus_failing_after 2 (- 5)) = []" by (simp add: bus_failing_after_def)
  from set_value_twice [OF h f r refl refl, of 0 "(0, 0)"] s show ?thesis by simp
qed

text \<open>
  C10 (other selectors). \<open>write_raw\<close> with a selector other than the raw one returns
  \<open>-EINVAL\<close> and gives back the state and the bus as they were; \<open>read_raw\<close> with a
  selector that is neither raw nor scale returns \<open>-EINVAL\<close>, and leaves the cells,
  the state and the bus as they were.
\<close>

theorem other_selectors_rejected:
  "(sel \<noteq> IIO_CHAN_INFO_RAW \<longrightarrow>
      mcp23009_write_raw d bus val val2 sel = (- EINVAL, d, bus))
   \<and> (sel \<noteq> IIO_CHAN_INFO_RAW \<and> sel \<noteq> IIO_CHAN_INFO_SCALE \<longrightarrow>
      mcp23009_read_raw d bus cells sel = (- EINVAL, cells, d, bus))"
  by (simp add: mcp23009_write_raw_def mcp23009_read_raw_def)

theorem other_selectors_rejected_witness:
  "mcp23009_write_raw (data_with 8 2) (bus_answering 2) 3 0 1 = (- EINVAL, data_with 8 2, bus_answering 2)
   \<and> mcp23009_read_raw (data_with 8 2) (bus_answering 2) (7, 9) 1
       = (- EINVAL, (7, 9), data_with 8 2, bus_answering 2)"
  using other_selectors_rejected [of 1 "data_with 8 2" "bus_answering 2" 3 0 "(7, 9)"]
  by (simp add: IIO_CHAN_INFO_RAW_def IIO_CHAN_INFO_SCALE_def)

end
